theory Spec2Isabelle
  imports Complex_Main "HOL-Library.Sublist"
begin

section \<open>JavaScript values used by the expense tracker\<close>

text \<open>
  The page \<^verbatim>\<open>src/app/page.tsx\<close> keeps a ledger of expenses in React state and derives
  its views from it. This theory embeds the ledger, the three capture handlers and the
  derived views.

  Numbers. A JavaScript number is an IEEE double: \<open>NaN\<close>, \<open>Infinity\<close>, \<open>-Infinity\<close> or a
  finite value, which is a rational number (\<open>0\<close> and \<open>-0\<close> are one value here; the page
  never tells them apart). Comparisons of doubles are exact. Arithmetic on doubles rounds,
  and the functions of the language that the page calls are not part of the page: the
  operators \<^verbatim>\<open>+\<close> and \<^verbatim>\<open>-\<close>, \<open>parseFloat\<close> and \<open>toLowerCase\<close> are parameters of the
  model (the record \<open>builtins\<close> below), and a theorem states what it needs of them.
\<close>

datatype jsnum = NaN | PInf | NInf | Fin rat

text \<open>
  Addition and subtraction without rounding. They stand in for \<^verbatim>\<open>+\<close> and \<^verbatim>\<open>-\<close> in the
  examples, whose numbers are small integers that doubles add and subtract exactly.
\<close>

fun add_exact :: "jsnum \<Rightarrow> jsnum \<Rightarrow> jsnum" where
  "add_exact NaN y = NaN"
| "add_exact x NaN = NaN"
| "add_exact PInf NInf = NaN"
| "add_exact NInf PInf = NaN"
| "add_exact PInf y = PInf"
| "add_exact x PInf = PInf"
| "add_exact NInf y = NInf"
| "add_exact x NInf = NInf"
| "add_exact (Fin a) (Fin b) = Fin (a + b)"

fun js_neg :: "jsnum \<Rightarrow> jsnum" where
  "js_neg NaN = NaN"
| "js_neg PInf = NInf"
| "js_neg NInf = PInf"
| "js_neg (Fin a) = Fin (- a)"

definition sub_exact :: "jsnum \<Rightarrow> jsnum \<Rightarrow> jsnum" where
  "sub_exact x y = add_exact x (js_neg y)"

text \<open>The operators \<^verbatim>\<open><\<close> and \<^verbatim>\<open><=\<close>: both are false as soon as one side is \<open>NaN\<close>.\<close>

fun js_less :: "jsnum \<Rightarrow> jsnum \<Rightarrow> bool" where
  "js_less NaN y = False"
| "js_less x NaN = False"
| "js_less PInf y = False"
| "js_less x NInf = False"
| "js_less NInf y = True"
| "js_less x PInf = True"
| "js_less (Fin a) (Fin b) = (a < b)"

definition js_le :: "jsnum \<Rightarrow> jsnum \<Rightarrow> bool" where
  "js_le x y = (x \<noteq> NaN \<and> y \<noteq> NaN \<and> (x = y \<or> js_less x y))"

text \<open>Truthiness of a number, and \<^verbatim>\<open>x || d\<close> on numbers: \<open>0\<close> and \<open>NaN\<close> are falsy.\<close>

definition truthy :: "jsnum \<Rightarrow> bool" where
  "truthy x = (x \<noteq> NaN \<and> x \<noteq> Fin 0)"

definition js_or :: "jsnum \<Rightarrow> jsnum \<Rightarrow> jsnum" where
  "js_or x d = (if truthy x then x else d)"

definition is_finite :: "jsnum \<Rightarrow> bool" where
  "is_finite x = (case x of Fin a \<Rightarrow> True | _ \<Rightarrow> False)"

instantiation jsnum :: zero
begin

definition zero_jsnum :: jsnum where
  "zero_jsnum = Fin 0"

instance ..

end

subsection \<open>Strings\<close>

text \<open>
  A string is a list of characters. \<open>toLowerCase_ascii\<close> is what \<open>toLowerCase\<close> does on
  ASCII text: the letters \<open>A\<close> to \<open>Z\<close> are mapped to \<open>a\<close> to \<open>z\<close>, every other character is
  kept.
\<close>

definition lower_char :: "char \<Rightarrow> char" where
  "lower_char c =
     (let n = (of_char c :: nat) in if 65 \<le> n \<and> n \<le> 90 then char_of (n + 32) else c)"

definition toLowerCase_ascii :: "string \<Rightarrow> string" where
  "toLowerCase_ascii s = map lower_char s"

fun startsWith :: "string \<Rightarrow> string \<Rightarrow> bool" where
  "startsWith s [] = True"
| "startsWith [] (q # qs) = False"
| "startsWith (c # cs) (q # qs) = (c = q \<and> startsWith cs qs)"

text \<open>\<^verbatim>\<open>s.includes(q)\<close> (named \<open>includes_str\<close> here): does \<open>q\<close> occur in \<open>s\<close> at some position.\<close>

fun includes_str :: "string \<Rightarrow> string \<Rightarrow> bool" where
  "includes_str [] q = (q = [])"
| "includes_str (c # cs) q = (startsWith (c # cs) q \<or> includes_str cs q)"

text \<open>\<^verbatim>\<open>s || d\<close> on a string that may be undefined: the empty string is falsy too.\<close>

definition str_or :: "string option \<Rightarrow> string \<Rightarrow> string" where
  "str_or s d = (case s of None \<Rightarrow> d | Some t \<Rightarrow> if t = [] then d else t)"

text \<open>\<^verbatim>\<open>n.toString()\<close> for a non-negative integer: its decimal digits.\<close>

definition digit_char :: "nat \<Rightarrow> char" where
  "digit_char d = char_of (48 + d)"

fun toString_nat :: "nat \<Rightarrow> string" where
  "toString_nat n =
     (if n < 10 then [digit_char n] else toString_nat (n div 10) @ [digit_char (n mod 10)])"

declare toString_nat.simps [simp del]

subsection \<open>parseFloat\<close>

text \<open>
  \<open>parseFloat_exact\<close> reads a decimal literal as \<open>parseFloat\<close> does (leading ASCII white
  space skipped, the longest prefix that is a literal read, the rest ignored, \<open>NaN\<close> with
  no such prefix) and gives its exact value. It is \<open>parseFloat\<close> on the texts of the
  examples, whose values are doubles; it is not used elsewhere.
\<close>

definition is_digit :: "char \<Rightarrow> bool" where
  "is_digit c = (let n = (of_char c :: nat) in 48 \<le> n \<and> n \<le> 57)"

definition is_space :: "char \<Rightarrow> bool" where
  "is_space c = ((of_char c :: nat) \<in> {9, 10, 11, 12, 13, 32})"

definition digits_val :: "string \<Rightarrow> nat" where
  "digits_val ds = foldl (\<lambda>a c. 10 * a + ((of_char c :: nat) - 48)) 0 ds"

definition pow10 :: "int \<Rightarrow> rat" where
  "pow10 e = (if 0 \<le> e then 10 ^ nat e else 1 / 10 ^ nat (- e))"

definition signed_integer :: "string \<Rightarrow> int option" where
  "signed_integer s =
     (let (sg, r) = (case s of
                       c # r \<Rightarrow> if c = CHR ''-'' then (- 1, r)
                                else if c = CHR ''+'' then (1, r) else (1, s)
                     | [] \<Rightarrow> (1, s));
          ds = takeWhile is_digit r
      in if ds = [] then None else Some (sg * int (digits_val ds)))"

definition exponent_part :: "string \<Rightarrow> int" where
  "exponent_part s =
     (case s of
        c # r \<Rightarrow> if c = CHR ''e'' \<or> c = CHR ''E''
                 then (case signed_integer r of None \<Rightarrow> 0 | Some e \<Rightarrow> e)
                 else 0
      | [] \<Rightarrow> 0)"

definition unsigned_literal :: "string \<Rightarrow> jsnum" where
  "unsigned_literal s =
     (if startsWith s ''Infinity'' then PInf
      else
        let ip = takeWhile is_digit s; r1 = dropWhile is_digit s in
        case r1 of
          c # r2 \<Rightarrow>
            if c = CHR ''.'' then
              (let fp = takeWhile is_digit r2; r3 = dropWhile is_digit r2 in
               if ip = [] \<and> fp = [] then NaN
               else Fin ((of_nat (digits_val ip) + of_nat (digits_val fp) / 10 ^ length fp)
                         * pow10 (exponent_part r3)))
            else if ip = [] then NaN
            else Fin (of_nat (digits_val ip) * pow10 (exponent_part r1))
        | [] \<Rightarrow> if ip = [] then NaN else Fin (of_nat (digits_val ip)))"

definition parseFloat_exact :: "string \<Rightarrow> jsnum" where
  "parseFloat_exact s =
     (case dropWhile is_space s of
        c # r \<Rightarrow> if c = CHR ''-'' then js_neg (unsigned_literal r)
                 else if c = CHR ''+'' then unsigned_literal r
                 else unsigned_literal (c # r)
      | [] \<Rightarrow> NaN)"

subsection \<open>The functions of the language\<close>

text \<open>
  What the page takes from the language: \<open>js_plus\<close> and \<open>js_minus\<close> are \<^verbatim>\<open>+\<close> and \<^verbatim>\<open>-\<close>
  on numbers, \<open>js_parseFloat\<close> is \<open>parseFloat\<close> on a string, \<open>js_toLowerCase\<close> is
  \<open>String.prototype.toLowerCase\<close>. \<open>exact_js\<close> is the instance the examples run: it
  agrees with the language on them (ASCII text, small integers and halves).
\<close>

record builtins =
  js_plus :: "jsnum \<Rightarrow> jsnum \<Rightarrow> jsnum"
  js_minus :: "jsnum \<Rightarrow> jsnum \<Rightarrow> jsnum"
  js_parseFloat :: "string \<Rightarrow> jsnum"
  js_toLowerCase :: "string \<Rightarrow> string"

definition exact_js :: builtins where
  "exact_js =
     \<lparr>js_plus = add_exact, js_minus = sub_exact, js_parseFloat = parseFloat_exact,
      js_toLowerCase = toLowerCase_ascii\<rparr>"

subsection \<open>Values of unknown type\<close>

text \<open>
  The amount of a spreadsheet candidate comes from the agent's reply and has no static
  type. The model covers the shapes a JSON reply gives it: absent, a number or a string.
  \<open>parseFloat\<close> first converts its argument to a string; a number printed and read
  back is the same number, and \<open>undefined\<close> reads as \<open>NaN\<close>.
\<close>

datatype jsval = Undefined | Num jsnum | Str string

definition parseFloat_val :: "builtins \<Rightarrow> jsval \<Rightarrow> jsnum" where
  "parseFloat_val b v =
     (case v of Undefined \<Rightarrow> NaN | Num x \<Rightarrow> x | Str t \<Rightarrow> js_parseFloat b t)"

text \<open>\<^verbatim>\<open>x || d\<close> on a number that may be undefined.\<close>

definition num_or :: "jsnum option \<Rightarrow> jsnum \<Rightarrow> jsnum" where
  "num_or x d = (case x of None \<Rightarrow> d | Some v \<Rightarrow> js_or v d)"

section \<open>The data model\<close>

datatype source = Manual | Excel | Image

record expense =
  expense_id :: string
  amount :: jsnum
  category :: string
  notes_e :: string
  date :: string
  source :: source
  confidence :: "jsnum option"

text \<open>
  A notification's message is kept as its template and the values put into it; the
  rendering of an amount by \<open>Intl.NumberFormat\<close> is outside the model.
\<close>

datatype ntype = N_success | N_error | N_info

datatype message_text =
    Lit string
  | Expense_added jsnum string
  | Found_in_file nat
  | Imported_from_excel nat
  | Added_from_image jsnum

record notification =
  ntype :: ntype
  nmessage :: message_text
  nid :: string

record confidence_scores =
  c_amount :: jsnum
  c_category :: jsnum
  c_overall :: jsnum

record extracted_expense =
  x_amount :: string
  x_category :: string
  x_notes :: string
  x_confidence :: confidence_scores

text \<open>A candidate row of the spreadsheet preview, as the agent returned it.\<close>

record item =
  item_amount :: jsval
  item_category :: "string option"
  item_notes :: "string option"
  item_date :: "string option"
  item_status :: "string option"

text \<open>
  The component state the ledger handlers read and write. A file is kept as its name.
  The chat transcript, the active tab and the image preview URL are left out: no ledger
  handler reads them.
\<close>

record state =
  expenses :: "expense list"
  notifications :: "notification list"
  searchQuery :: string
  filterCategory :: string
  manualAmount :: string
  manualCategory :: string
  manualNotes :: string
  manualLoading :: bool
  manualError :: string
  excelFile :: "string option"
  excelPreview :: "item list"
  excelLoading :: bool
  excelError :: string
  imageFile :: "string option"
  extractedData :: "extracted_expense option"
  imageLoading :: bool
  imageError :: string

definition initial_state :: state where
  "initial_state =
     \<lparr>expenses = [], notifications = [], searchQuery = [], filterCategory = ''all'',
      manualAmount = [], manualCategory = [], manualNotes = [], manualLoading = False,
      manualError = [], excelFile = None, excelPreview = [], excelLoading = False,
      excelError = [], imageFile = None, extractedData = None, imageLoading = False,
      imageError = []\<rparr>"

subsection \<open>The external collaborators\<close>

text \<open>
  \<open>callAIAgent\<close> and \<open>uploadFiles\<close> are imported from outside the page. A handler takes
  what the call gave back as an argument, and returns the calls it made next to the new
  state. \<open>Threw\<close> stands for a rejected promise and for a reply so malformed that reading
  it raises; both end in the handler's \<open>catch\<close>.
\<close>

record 'r response =
  status :: string
  message :: "string option"
  result :: 'r

datatype 'r agent_result = Threw | Returned bool "'r response"

datatype upload_result = Upload_threw | Uploaded bool "string list"

datatype call = UploadFiles string | CallAIAgent string "string list"

text \<open>
  The result object of a spreadsheet reply: each field is \<open>Some\<close> list when the reply
  holds an array there, \<open>None\<close> when the field is absent or not an array.
\<close>

record excel_data =
  expenses_field :: "item list option"
  items_field :: "item list option"

text \<open>
  The result object of a receipt reply. \<open>amount_field\<close> and \<open>total_field\<close> hold the value
  of \<^verbatim>\<open>resultData.amount?.toString()\<close> and \<^verbatim>\<open>resultData.total?.toString()\<close>.
\<close>

record confidence_field =
  f_amount :: "jsnum option"
  f_category :: "jsnum option"
  f_overall :: "jsnum option"

record image_data =
  amount_field :: "string option"
  total_field :: "string option"
  category_field :: "string option"
  notes_field :: "string option"
  description_field :: "string option"
  merchant_field :: "string option"
  confidence_field :: "confidence_field option"

text \<open>The clock: the value of \<open>Date.now()\<close> and of \<open>new Date().toISOString()\<close> at a read.\<close>

record clock =
  now :: nat
  iso :: string

section \<open>Handlers\<close>

text \<open>
  A handler is a function from the state at its start to the state at its end. The
  loading flag of an asynchronous handler is raised while it waits and lowered in its
  \<^verbatim>\<open>finally\<close>, so it is lowered in the state at the end.
\<close>

definition addNotification :: "ntype \<Rightarrow> message_text \<Rightarrow> nat \<Rightarrow> state \<Rightarrow> state" where
  "addNotification ty msg t s =
     s\<lparr>notifications := notifications s @ [\<lparr>ntype = ty, nmessage = msg, nid = toString_nat t\<rparr>]\<rparr>"

text \<open>The timer set by \<open>addNotification\<close>, five seconds later.\<close>

definition notification_timeout :: "string \<Rightarrow> state \<Rightarrow> state" where
  "notification_timeout i s = s\<lparr>notifications := filter (\<lambda>n. nid n \<noteq> i) (notifications s)\<rparr>"

definition rupee :: string where
  "rupee = [CHR 0xE2, CHR 0x82, CHR 0xB9]"

subsection \<open>Manual entry\<close>

text \<open>
  \<open>handleManualSubmit agent c t s\<close>: \<open>agent\<close> is what \<open>callAIAgent\<close> gave back, \<open>c\<close> the
  clock read for the new expense, \<open>t\<close> the clock read by \<open>addNotification\<close>.
\<close>

definition handleManualSubmit ::
  "builtins \<Rightarrow> unit agent_result \<Rightarrow> clock \<Rightarrow> nat \<Rightarrow> state \<Rightarrow> state \<times> call list" where
  "handleManualSubmit b agent c t s0 =
     (let s = s0\<lparr>manualError := []\<rparr> in
      if manualAmount s = [] \<or> js_le (js_parseFloat b (manualAmount s)) 0 then
        (s\<lparr>manualError := ''Please enter a valid amount greater than 0''\<rparr>, [])
      else if manualCategory s = [] then
        (s\<lparr>manualError := ''Please select a category''\<rparr>, [])
      else
        let msg = ''Add expense: Amount: '' @ rupee @ manualAmount s @ '', Category: '' @
                  manualCategory s @ '', Notes: '' @
                  (if manualNotes s = [] then ''None'' else manualNotes s);
            calls = [CallAIAgent msg []]
        in case agent of
          Threw \<Rightarrow>
            (addNotification N_error (Lit ''An error occurred'') t
               (s\<lparr>manualError := ''An error occurred while adding expense'',
                  manualLoading := False\<rparr>), calls)
        | Returned ok r \<Rightarrow>
            if ok \<and> status r = ''success'' then
              let newExpense =
                    \<lparr>expense_id = toString_nat (now c),
                     amount = js_parseFloat b (manualAmount s),
                     category = manualCategory s,
                     notes_e = manualNotes s,
                     date = iso c,
                     source = Manual,
                     confidence = None\<rparr>
              in (addNotification N_success
                    (Expense_added (amount newExpense) (manualCategory s)) t
                    (s\<lparr>expenses := newExpense # expenses s,
                       manualAmount := [], manualCategory := [], manualNotes := [],
                       manualLoading := False\<rparr>), calls)
            else
              (addNotification N_error (Lit ''Failed to add expense'') t
                 (s\<lparr>manualError := str_or (message r) ''Failed to add expense'',
                    manualLoading := False\<rparr>), calls))"

subsection \<open>Spreadsheet upload\<close>

definition placeholder :: item where
  "placeholder =
     \<lparr>item_amount = Num (Fin 50), item_category = Some ''Food & Dining'',
      item_notes = Some ''Lunch meeting'', item_date = None, item_status = Some ''valid''\<rparr>"

definition processExcelFile ::
  "string \<Rightarrow> upload_result \<Rightarrow> excel_data agent_result \<Rightarrow> nat \<Rightarrow> state \<Rightarrow> state \<times> call list" where
  "processExcelFile file upload agent t s0 =
     (let s = s0\<lparr>excelLoading := False, excelError := [], excelPreview := []\<rparr>;
          caught = addNotification N_error (Lit ''Processing error'') t
                     (s\<lparr>excelError := ''An error occurred while processing file''\<rparr>)
      in case upload of
        Upload_threw \<Rightarrow> (caught, [UploadFiles file])
      | Uploaded up_ok asset_ids \<Rightarrow>
          if \<not> up_ok \<or> length asset_ids = 0 then
            (addNotification N_error (Lit ''File upload failed'') t
               (s\<lparr>excelError := ''Failed to upload file''\<rparr>), [UploadFiles file])
          else
            let assetId = hd asset_ids;
                msg = ''Process expense spreadsheet: '' @ file;
                calls = [UploadFiles file, CallAIAgent msg [assetId]]
            in case agent of
              Threw \<Rightarrow> (caught, calls)
            | Returned ok r \<Rightarrow>
                if ok \<and> status r = ''success'' then
                  let resultData = result r;
                      previewData =
                        (case expenses_field resultData of
                           Some es \<Rightarrow> es
                         | None \<Rightarrow>
                             (case items_field resultData of
                                Some its \<Rightarrow> its
                              | None \<Rightarrow> [placeholder]))
                  in (addNotification N_info (Found_in_file (length previewData)) t
                        (s\<lparr>excelPreview := previewData\<rparr>), calls)
                else
                  (addNotification N_error (Lit ''Failed to process file'') t
                     (s\<lparr>excelError := str_or (message r) ''Failed to process Excel file''\<rparr>),
                   calls))"

definition endsWith :: "string \<Rightarrow> string \<Rightarrow> bool" where
  "endsWith s q = startsWith (rev s) (rev q)"

definition handleExcelDrop ::
  "string option \<Rightarrow> upload_result \<Rightarrow> excel_data agent_result \<Rightarrow> nat \<Rightarrow> state \<Rightarrow> state \<times> call list" where
  "handleExcelDrop dropped upload agent t s =
     (case dropped of
        None \<Rightarrow> (s\<lparr>excelError := ''Please upload a valid Excel or CSV file''\<rparr>, [])
      | Some file \<Rightarrow>
          if endsWith file ''.xlsx'' \<or> endsWith file ''.xls'' \<or> endsWith file ''.csv'' then
            processExcelFile file upload agent t (s\<lparr>excelFile := Some file\<rparr>)
          else (s\<lparr>excelError := ''Please upload a valid Excel or CSV file''\<rparr>, []))"

definition handleExcelSelect ::
  "string option \<Rightarrow> upload_result \<Rightarrow> excel_data agent_result \<Rightarrow> nat \<Rightarrow> state \<Rightarrow> state \<times> call list" where
  "handleExcelSelect chosen upload agent t s =
     (case chosen of
        None \<Rightarrow> (s, [])
      | Some file \<Rightarrow> processExcelFile file upload agent t (s\<lparr>excelFile := Some file\<rparr>))"

text \<open>
  \<open>handleExcelConfirm clk t s\<close>: the callback of \<open>map\<close> reads the clock once for every
  candidate; \<open>clk index\<close> is the read made for the candidate at \<open>index\<close>.
\<close>

definition excel_expense :: "builtins \<Rightarrow> (nat \<Rightarrow> clock) \<Rightarrow> nat \<times> item \<Rightarrow> expense" where
  "excel_expense b clk p =
     (case p of (index, it) \<Rightarrow>
        \<lparr>expense_id = toString_nat (now (clk index)) @ ''-'' @ toString_nat index,
         amount = js_or (parseFloat_val b (item_amount it)) 0,
         category = str_or (item_category it) ''Other'',
         notes_e = str_or (item_notes it) [],
         date = str_or (item_date it) (iso (clk index)),
         source = Excel,
         confidence = None\<rparr>)"

definition handleExcelConfirm :: "builtins \<Rightarrow> (nat \<Rightarrow> clock) \<Rightarrow> nat \<Rightarrow> state \<Rightarrow> state" where
  "handleExcelConfirm b clk t s =
     (if length (excelPreview s) = 0 then s
      else
        let newExpenses = map (excel_expense b clk) (enumerate 0 (excelPreview s))
        in addNotification N_success (Imported_from_excel (length newExpenses)) t
             (s\<lparr>expenses := newExpenses @ expenses s, excelFile := None, excelPreview := []\<rparr>))"

definition handleExcelCancel :: "state \<Rightarrow> state" where
  "handleExcelCancel s = s\<lparr>excelFile := None, excelPreview := [], excelError := []\<rparr>"

subsection \<open>Receipt image upload\<close>

definition processImage ::
  "string \<Rightarrow> upload_result \<Rightarrow> image_data agent_result \<Rightarrow> nat \<Rightarrow> state \<Rightarrow> state \<times> call list" where
  "processImage file upload agent t s0 =
     (let s = s0\<lparr>imageFile := Some file, imageLoading := False, imageError := [],
                 extractedData := None\<rparr>;
          caught = addNotification N_error (Lit ''Processing error'') t
                     (s\<lparr>imageError := ''An error occurred during image processing''\<rparr>)
      in case upload of
        Upload_threw \<Rightarrow> (caught, [UploadFiles file])
      | Uploaded up_ok asset_ids \<Rightarrow>
          if \<not> up_ok \<or> length asset_ids = 0 then
            (addNotification N_error (Lit ''Image upload failed'') t
               (s\<lparr>imageError := ''Failed to upload image''\<rparr>), [UploadFiles file])
          else
            let assetId = hd asset_ids;
                msg = ''Extract expense details from receipt image: '' @ file;
                calls = [UploadFiles file, CallAIAgent msg [assetId]]
            in case agent of
              Threw \<Rightarrow> (caught, calls)
            | Returned ok r \<Rightarrow>
                if ok \<and> status r = ''success'' then
                  let resultData = result r;
                      conf = confidence_field resultData;
                      extracted =
                        \<lparr>x_amount = str_or (amount_field resultData)
                                      (str_or (total_field resultData) ''0.00''),
                         x_category = str_or (category_field resultData) ''Other'',
                         x_notes = str_or (notes_field resultData)
                                     (str_or (description_field resultData)
                                        (str_or (merchant_field resultData) [])),
                         x_confidence =
                           \<lparr>c_amount = num_or (Option.bind conf f_amount) (Fin 85),
                            c_category = num_or (Option.bind conf f_category) (Fin 75),
                            c_overall = num_or (Option.bind conf f_overall) (Fin 80)\<rparr>\<rparr>
                  in (addNotification N_success
                        (Lit ''Successfully extracted expense data from image'') t
                        (s\<lparr>extractedData := Some extracted\<rparr>), calls)
                else
                  (addNotification N_error (Lit ''OCR extraction failed'') t
                     (s\<lparr>imageError := str_or (message r) ''Failed to extract data from image''\<rparr>),
                   calls))"

text \<open>A dropped file is given by its name and its MIME type.\<close>

definition handleImageDrop ::
  "(string \<times> string) option \<Rightarrow> upload_result \<Rightarrow> image_data agent_result \<Rightarrow> nat \<Rightarrow> state
     \<Rightarrow> state \<times> call list" where
  "handleImageDrop dropped upload agent t s =
     (case dropped of
        None \<Rightarrow> (s\<lparr>imageError := ''Please upload a valid image file''\<rparr>, [])
      | Some (file, mime) \<Rightarrow>
          if startsWith mime ''image/'' then processImage file upload agent t s
          else (s\<lparr>imageError := ''Please upload a valid image file''\<rparr>, []))"

definition handleImageSelect ::
  "string option \<Rightarrow> upload_result \<Rightarrow> image_data agent_result \<Rightarrow> nat \<Rightarrow> state \<Rightarrow> state \<times> call list" where
  "handleImageSelect chosen upload agent t s =
     (case chosen of
        None \<Rightarrow> (s, [])
      | Some file \<Rightarrow> processImage file upload agent t s)"

text \<open>The three inputs of the extracted candidate.\<close>

definition edit_amount :: "string \<Rightarrow> state \<Rightarrow> state" where
  "edit_amount v s =
     s\<lparr>extractedData := (case extractedData s of None \<Rightarrow> None | Some x \<Rightarrow> Some (x\<lparr>x_amount := v\<rparr>))\<rparr>"

definition edit_category :: "string \<Rightarrow> state \<Rightarrow> state" where
  "edit_category v s =
     s\<lparr>extractedData := (case extractedData s of None \<Rightarrow> None | Some x \<Rightarrow> Some (x\<lparr>x_category := v\<rparr>))\<rparr>"

definition edit_notes :: "string \<Rightarrow> state \<Rightarrow> state" where
  "edit_notes v s =
     s\<lparr>extractedData := (case extractedData s of None \<Rightarrow> None | Some x \<Rightarrow> Some (x\<lparr>x_notes := v\<rparr>))\<rparr>"

definition handleImageConfirm :: "builtins \<Rightarrow> clock \<Rightarrow> nat \<Rightarrow> state \<Rightarrow> state" where
  "handleImageConfirm b c t s =
     (case extractedData s of
        None \<Rightarrow> s
      | Some x \<Rightarrow>
          let newExpense =
                \<lparr>expense_id = toString_nat (now c),
                 amount = js_or (js_parseFloat b (x_amount x)) 0,
                 category = x_category x,
                 notes_e = x_notes x,
                 date = iso c,
                 source = Image,
                 confidence = Some (c_overall (x_confidence x))\<rparr>
          in addNotification N_success (Added_from_image (amount newExpense)) t
               (s\<lparr>expenses := newExpense # expenses s, imageFile := None,
                  extractedData := None\<rparr>))"

definition handleImageCancel :: "state \<Rightarrow> state" where
  "handleImageCancel s = s\<lparr>imageFile := None, extractedData := None, imageError := []\<rparr>"

subsection \<open>Deleting an expense\<close>

text \<open>The delete button of an expense card: \<open>i\<close> is the id of the card's expense.\<close>

definition delete_expense :: "string \<Rightarrow> state \<Rightarrow> state" where
  "delete_expense i s = s\<lparr>expenses := filter (\<lambda>e. expense_id e \<noteq> i) (expenses s)\<rparr>"

section \<open>Events\<close>

text \<open>
  One event is one run of a handler, from the user's action to the end of the handler;
  what the outside gave back during it (replies, clock reads) is part of the event. An
  asynchronous handler is taken as one step: it changes the ledger only at its end, by
  \<^verbatim>\<open>setExpenses(prev => ...)\<close> on the ledger of that moment, so the events that
  happen while it waits are events before it.
\<close>

datatype event =
    Set_manualAmount string
  | Set_manualCategory string
  | Set_manualNotes string
  | Manual_submit "unit agent_result" clock nat
  | Excel_drop "string option" upload_result "excel_data agent_result" nat
  | Excel_select "string option" upload_result "excel_data agent_result" nat
  | Excel_confirm "nat \<Rightarrow> clock" nat
  | Excel_cancel
  | Image_drop "(string \<times> string) option" upload_result "image_data agent_result" nat
  | Image_select "string option" upload_result "image_data agent_result" nat
  | Edit_amount string
  | Edit_category string
  | Edit_notes string
  | Image_confirm clock nat
  | Image_cancel
  | Delete string
  | Set_searchQuery string
  | Set_filterCategory string
  | Notification_timeout string

fun step :: "builtins \<Rightarrow> event \<Rightarrow> state \<Rightarrow> state" where
  "step b (Set_manualAmount v) s = s\<lparr>manualAmount := v\<rparr>"
| "step b (Set_manualCategory v) s = s\<lparr>manualCategory := v\<rparr>"
| "step b (Set_manualNotes v) s = s\<lparr>manualNotes := v\<rparr>"
| "step b (Manual_submit agent c t) s = fst (handleManualSubmit b agent c t s)"
| "step b (Excel_drop f upload agent t) s = fst (handleExcelDrop f upload agent t s)"
| "step b (Excel_select f upload agent t) s = fst (handleExcelSelect f upload agent t s)"
| "step b (Excel_confirm clk t) s = handleExcelConfirm b clk t s"
| "step b Excel_cancel s = handleExcelCancel s"
| "step b (Image_drop f upload agent t) s = fst (handleImageDrop f upload agent t s)"
| "step b (Image_select f upload agent t) s = fst (handleImageSelect f upload agent t s)"
| "step b (Edit_amount v) s = edit_amount v s"
| "step b (Edit_category v) s = edit_category v s"
| "step b (Edit_notes v) s = edit_notes v s"
| "step b (Image_confirm c t) s = handleImageConfirm b c t s"
| "step b Image_cancel s = handleImageCancel s"
| "step b (Delete i) s = delete_expense i s"
| "step b (Set_searchQuery v) s = s\<lparr>searchQuery := v\<rparr>"
| "step b (Set_filterCategory v) s = s\<lparr>filterCategory := v\<rparr>"
| "step b (Notification_timeout i) s = notification_timeout i s"

definition run_from :: "builtins \<Rightarrow> state \<Rightarrow> event list \<Rightarrow> state" where
  "run_from b s evs = foldl (\<lambda>st ev. step b ev st) s evs"

text \<open>The states the page can be in: those a sequence of events leads to from the start.\<close>

definition run :: "builtins \<Rightarrow> event list \<Rightarrow> state" where
  "run b evs = run_from b initial_state evs"

section \<open>Derived views\<close>

text \<open>
  \<^verbatim>\<open>xs.reduce(f, a)\<close> runs from the left. \<open>filteredExpenses\<close>, \<open>totalExpenses\<close>,
  \<open>categoryTotals\<close> and \<open>topCategory\<close> are the constants of the same names in the
  component body, as functions of the state they read.
\<close>

definition reduce :: "('b \<Rightarrow> 'a \<Rightarrow> 'b) \<Rightarrow> 'b \<Rightarrow> 'a list \<Rightarrow> 'b" where
  "reduce f a xs = foldl f a xs"

definition matchesSearch :: "builtins \<Rightarrow> string \<Rightarrow> expense \<Rightarrow> bool" where
  "matchesSearch b q e =
     (includes_str (js_toLowerCase b (notes_e e)) (js_toLowerCase b q) \<or>
      includes_str (js_toLowerCase b (category e)) (js_toLowerCase b q))"

definition matchesCategory :: "string \<Rightarrow> expense \<Rightarrow> bool" where
  "matchesCategory fc e = (fc = ''all'' \<or> category e = fc)"

definition filteredExpenses :: "builtins \<Rightarrow> state \<Rightarrow> expense list" where
  "filteredExpenses b s =
     filter (\<lambda>e. matchesSearch b (searchQuery s) e \<and> matchesCategory (filterCategory s) e)
       (expenses s)"


subsection \<open>The totals object\<close>

text \<open>
  \<open>categoryTotals\<close> is a plain object used as a map from category to number. It is
  modelled by its own properties in the order of their creation. Two things of a
  JavaScript object show through:
  \<^item> \<open>Object.entries\<close> lists the keys that are array indices (\<open>0\<close>, \<open>1\<close>, \<open>42\<close>: canonical
    decimal numbers up to \<open>2^32 - 2\<close>) first, in ascending numeric order, and the other
    keys after them in the order of their creation;
  \<^item> reading a key the object does not own finds the members of \<open>Object.prototype\<close>
    (\<open>constructor\<close>, \<open>toString\<close>, ...). Such a member is truthy and no number, so
    \<^verbatim>\<open>(acc[k] || 0) + amount\<close> is then a string, written \<open>Text\<close> below, and stays one;
    it counts as \<open>NaN\<close> in the comparator's subtraction. An assignment to \<open>__proto__\<close>
    of a value that is no object creates no property.
\<close>

datatype tval = Number jsnum | Text

type_synonym obj = "(string \<times> tval) list"

fun obj_get :: "obj \<Rightarrow> string \<Rightarrow> tval option" where
  "obj_get [] k = None"
| "obj_get ((k', v') # ps) k = (if k' = k then Some v' else obj_get ps k)"

fun obj_set :: "obj \<Rightarrow> string \<Rightarrow> tval \<Rightarrow> obj" where
  "obj_set [] k v = [(k, v)]"
| "obj_set ((k', v') # ps) k v = (if k' = k then (k, v) # ps else (k', v') # obj_set ps k v)"

definition object_prototype_names :: "string list" where
  "object_prototype_names =
     [''constructor'', ''__defineGetter__'', ''__defineSetter__'', ''hasOwnProperty'',
      ''__lookupGetter__'', ''__lookupSetter__'', ''isPrototypeOf'', ''propertyIsEnumerable'',
      ''toString'', ''valueOf'', ''__proto__'', ''toLocaleString'']"

text \<open>\<^verbatim>\<open>(acc[k] || 0) + amount\<close> and \<^verbatim>\<open>acc[k] = v\<close>.\<close>

definition add_to_total :: "builtins \<Rightarrow> obj \<Rightarrow> string \<Rightarrow> jsnum \<Rightarrow> tval" where
  "add_to_total b acc k a =
     (case obj_get acc k of
        Some (Number x) \<Rightarrow> Number (js_plus b (js_or x 0) a)
      | Some Text \<Rightarrow> Text
      | None \<Rightarrow> if k \<in> set object_prototype_names then Text else Number (js_plus b 0 a))"

definition assign :: "obj \<Rightarrow> string \<Rightarrow> tval \<Rightarrow> obj" where
  "assign acc k v = (if k = ''__proto__'' then acc else obj_set acc k v)"

definition to_number :: "tval \<Rightarrow> jsnum" where
  "to_number v = (case v of Number x \<Rightarrow> x | Text \<Rightarrow> NaN)"

definition array_index :: "string \<Rightarrow> nat option" where
  "array_index k =
     (if k \<noteq> [] \<and> list_all is_digit k \<and> (k = ''0'' \<or> hd k \<noteq> CHR ''0'') \<and>
         digits_val k \<le> 4294967294
      then Some (digits_val k) else None)"

definition is_index :: "string \<times> tval \<Rightarrow> bool" where
  "is_index p = (array_index (fst p) \<noteq> None)"

definition index_of :: "string \<times> tval \<Rightarrow> nat" where
  "index_of p = (case array_index (fst p) of None \<Rightarrow> 0 | Some i \<Rightarrow> i)"

definition Object_entries :: "obj \<Rightarrow> (string \<times> tval) list" where
  "Object_entries ob =
     sort_key index_of (filter is_index ob) @ filter (\<lambda>p. \<not> is_index p) ob"

text \<open>
  \<^verbatim>\<open>xs.sort(cmp)\<close> is stable: \<open>a\<close> goes after \<open>b\<close> only when \<open>cmp(a, b) > 0\<close>; a result of
  \<open>0\<close> or \<open>NaN\<close> keeps the two in their order. The language leaves the algorithm open and
  promises a sorted result for a consistent comparator; the model sorts by insertion.
\<close>

fun insert_by :: "('a \<Rightarrow> 'a \<Rightarrow> jsnum) \<Rightarrow> 'a \<Rightarrow> 'a list \<Rightarrow> 'a list" where
  "insert_by cmp x [] = [x]"
| "insert_by cmp x (y # ys) =
     (if js_less 0 (cmp x y) then y # insert_by cmp x ys else x # y # ys)"

definition sort_by :: "('a \<Rightarrow> 'a \<Rightarrow> jsnum) \<Rightarrow> 'a list \<Rightarrow> 'a list" where
  "sort_by cmp xs = foldr (insert_by cmp) xs []"

definition categoryTotals :: "builtins \<Rightarrow> state \<Rightarrow> obj" where
  "categoryTotals b s =
     reduce (\<lambda>acc e. assign acc (category e) (add_to_total b acc (category e) (amount e)))
       [] (filteredExpenses b s)"

text \<open>\<open>topCategory\<close> is the first entry of the sorted list, \<open>None\<close> for \<open>undefined\<close>.\<close>

definition by_total_descending ::
  "builtins \<Rightarrow> string \<times> tval \<Rightarrow> string \<times> tval \<Rightarrow> jsnum" where
  "by_total_descending b x y = js_minus b (to_number (snd y)) (to_number (snd x))"

definition topCategory :: "builtins \<Rightarrow> state \<Rightarrow> (string \<times> tval) option" where
  "topCategory b s =
     (case sort_by (by_total_descending b) (Object_entries (categoryTotals b s)) of
        [] \<Rightarrow> None
      | e # rest \<Rightarrow> Some e)"

subsection \<open>The search, the filter and the sums, as the specification words them\<close>

text \<open>
  The sum of a list of amounts: they are added in the order of the list, starting at 0.
\<close>

definition sum_left :: "builtins \<Rightarrow> jsnum list \<Rightarrow> jsnum" where
  "sum_left b xs = foldl (js_plus b) 0 xs"









text \<open>The summed amount of a category over a list of records, and over the filtered list.\<close>

definition sum_of :: "builtins \<Rightarrow> expense list \<Rightarrow> string \<Rightarrow> jsnum" where
  "sum_of b fs c = sum_left b (map amount (filter (\<lambda>e. category e = c) fs))"

definition category_sum :: "builtins \<Rightarrow> state \<Rightarrow> string \<Rightarrow> jsnum" where
  "category_sum b s c = sum_of b (filteredExpenses b s) c"

text \<open>
  No running sum of a category is \<open>NaN\<close>: for every initial part of the list and every
  category in it. (\<open>NaN\<close> comes from an amount that is \<open>NaN\<close>, or from adding \<open>Infinity\<close>
  and \<open>-Infinity\<close>.)
\<close>

definition no_NaN_sum :: "builtins \<Rightarrow> expense list \<Rightarrow> bool" where
  "no_NaN_sum b fs =
     list_all (\<lambda>ps. list_all (\<lambda>e. sum_of b ps (category e) \<noteq> NaN) ps) (prefixes fs)"

text \<open>
  What the comparator needs of \<^verbatim>\<open>-\<close>: on numbers other than \<open>NaN\<close>, \<^verbatim>\<open>y - x > 0\<close> exactly
  when \<^verbatim>\<open>x < y\<close>. Subtraction of doubles has this property: the difference of two
  different doubles does not round to 0, and \<^verbatim>\<open>Infinity - Infinity\<close> is \<open>NaN\<close>.
\<close>

definition minus_orders :: "builtins \<Rightarrow> bool" where
  "minus_orders b =
     (\<forall>x y. x \<noteq> NaN \<and> y \<noteq> NaN \<longrightarrow> js_less 0 (js_minus b y x) = js_less x y)"

subsection \<open>Failed calls, and example inputs\<close>

text \<open>
  A call of the agent failed when it threw or gave back anything but a successful reply;
  an upload failed when it threw, reported no success or gave back no asset id.
\<close>

definition agent_failed :: "'r agent_result \<Rightarrow> bool" where
  "agent_failed a =
     (case a of Threw \<Rightarrow> True | Returned ok r \<Rightarrow> \<not> (ok \<and> status r = ''success''))"

definition upload_failed :: "upload_result \<Rightarrow> bool" where
  "upload_failed u =
     (case u of Upload_threw \<Rightarrow> True | Uploaded ok ids \<Rightarrow> \<not> ok \<or> ids = [])"

definition ok_reply :: "'r \<Rightarrow> 'r agent_result" where
  "ok_reply x = Returned True \<lparr>status = ''success'', message = None, result = x\<rparr>"

definition clock_at :: "nat \<Rightarrow> clock" where
  "clock_at n = \<lparr>now = n, iso = ''2026-01-01T00:00:00.000Z''\<rparr>"

definition manual_form :: "string \<Rightarrow> string \<Rightarrow> state" where
  "manual_form a c = initial_state\<lparr>manualAmount := a, manualCategory := c\<rparr>"

definition no_arrays :: excel_data where
  "no_arrays = \<lparr>expenses_field = None, items_field = None\<rparr>"

definition empty_receipt :: image_data where
  "empty_receipt =
     \<lparr>amount_field = None, total_field = None, category_field = None, notes_field = None,
      description_field = None, merchant_field = None, confidence_field = None\<rparr>"

subsection \<open>What the ledger's records keep\<close>

text \<open>
  The amount of a record, by the handler that made it: a manual record passed the test
  \<^verbatim>\<open>parseFloat(manualAmount) <= 0\<close>, so it is greater than 0 unless it is \<open>NaN\<close>; a
  spreadsheet or image record was made with \<^verbatim>\<open>parseFloat(...) || 0\<close>, so it is a number,
  of any sign.
\<close>

definition amount_invariant :: "expense \<Rightarrow> bool" where
  "amount_invariant e =
     (case source e of
        Manual \<Rightarrow> amount e = NaN \<or> js_less 0 (amount e)
      | Excel \<Rightarrow> amount e \<noteq> NaN
      | Image \<Rightarrow> amount e \<noteq> NaN)"

definition receipt_selected :: event where
  "receipt_selected =
     Image_select (Some ''receipt.png'') (Uploaded True [''asset-1'']) (ok_reply empty_receipt)
       1767225600000"

definition same_clock_run :: "event list" where
  "same_clock_run =
     [receipt_selected, Set_manualAmount ''5'', Set_manualCategory ''Travel'',
      Manual_submit (ok_reply ()) (clock_at 1767225660000) 1767225660000,
      Image_confirm (clock_at 1767225660000) 1767225660000]"

definition later_clock_run :: "event list" where
  "later_clock_run =
     [receipt_selected, Set_manualAmount ''5'', Set_manualCategory ''Travel'',
      Manual_submit (ok_reply ()) (clock_at 1767225660000) 1767225660000,
      Image_confirm (clock_at 1767225670000) 1767225670000,
      Excel_select (Some ''march.csv'') (Uploaded True [''asset-2'']) (ok_reply no_arrays)
        1767225680000,
      Excel_confirm (\<lambda>index. clock_at 1767225690000) 1767225690000]"

definition zero_amount_run :: "event list" where
  "zero_amount_run = [receipt_selected, Image_confirm (clock_at 1767225660000) 1767225660000]"

text \<open>A spreadsheet whose rows the agent returned, imported and confirmed.\<close>

definition sheet_row :: "string \<Rightarrow> string \<Rightarrow> item" where
  "sheet_row a c =
     \<lparr>item_amount = Str a, item_category = Some c, item_notes = None, item_date = None,
      item_status = None\<rparr>"

definition import_rows :: "item list \<Rightarrow> event list" where
  "import_rows rows =
     [Excel_select (Some ''march.csv'') (Uploaded True [''asset-2''])
        (ok_reply \<lparr>expenses_field = Some rows, items_field = None\<rparr>) 1767225680000,
      Excel_confirm (\<lambda>index. clock_at 1767225690000) 1767225690000]"

definition tie_run :: "event list" where
  "tie_run = import_rows [sheet_row ''10'' ''Shopping'', sheet_row ''30'' ''Travel'',
                          sheet_row ''30'' ''Healthcare'']"

definition index_tie_run :: "event list" where
  "index_tie_run = import_rows [sheet_row ''10'' ''2'', sheet_row ''10'' ''1'']"

definition inherited_name_run :: "event list" where
  "inherited_name_run = import_rows [sheet_row ''10'' ''Travel'', sheet_row ''50'' ''constructor'']"

definition infinity_run :: "event list" where
  "infinity_run =
     import_rows [sheet_row ''Infinity'' ''Travel'', sheet_row ''-Infinity'' ''Travel'',
                  sheet_row ''50'' ''Travel'', sheet_row ''30'' ''Shopping'']"

definition imported_row :: "string \<Rightarrow> jsnum \<Rightarrow> string \<Rightarrow> expense" where
  "imported_row i a c =
     \<lparr>expense_id = ''1767225690000-'' @ i, amount = a, category = c, notes_e = [],
      date = ''2026-01-01T00:00:00.000Z'', source = Excel, confidence = None\<rparr>"


subsection \<open>Auxiliary notions of the proofs\<close>

text \<open>
  The reduction of \<open>categoryTotals\<close> over any list of records, and the number the
  comparator reads from an entry.
\<close>

definition totals_of :: "builtins \<Rightarrow> expense list \<Rightarrow> obj" where
  "totals_of b fs =
     foldl (\<lambda>acc e. assign acc (category e) (add_to_total b acc (category e) (amount e))) [] fs"

definition tv :: "string \<times> tval \<Rightarrow> jsnum" where
  "tv p = to_number (snd p)"

section \<open>Properties of the search and the total\<close>















section \<open>The example runs, evaluated\<close>

lemma digit_char_eval:
  "digit_char 0 = CHR ''0''" "digit_char 1 = CHR ''1''" "digit_char (Suc 0) = CHR ''1''"
  "digit_char 2 = CHR ''2''" "digit_char 3 = CHR ''3''" "digit_char 4 = CHR ''4''"
  "digit_char 5 = CHR ''5''" "digit_char 6 = CHR ''6''" "digit_char 7 = CHR ''7''"
  "digit_char 8 = CHR ''8''" "digit_char 9 = CHR ''9''"
  by code_simp+

lemma toString_small:
  "toString_nat (Suc 0) = ''1''" "toString_nat (Suc (Suc 0)) = ''2''"
  "toString_nat (Suc (Suc (Suc 0))) = ''3''"
  by code_simp+

lemma toString_eval:
  "toString_nat 0 = ''0''" "toString_nat 1 = ''1''" "toString_nat 2 = ''2''"
  "toString_nat 1767225660000 = ''1767225660000''"
  "toString_nat 1767225670000 = ''1767225670000''"
  "toString_nat 1767225690000 = ''1767225690000''"
  by (simp_all add: toString_nat.simps digit_char_eval)

lemma parseFloat_eval:
  "parseFloat_exact ''-3'' = Fin (- 3)" "parseFloat_exact ''12.5'' = Fin (25 / 2)"
  "parseFloat_exact ''5'' = Fin 5" "parseFloat_exact ''0.00'' = Fin 0"
  "parseFloat_exact ''10'' = Fin 10" "parseFloat_exact ''30'' = Fin 30"
  "parseFloat_exact ''50'' = Fin 50" "parseFloat_exact ''Infinity'' = PInf"
  "parseFloat_exact ''-Infinity'' = NInf"
  by code_simp+

lemma exact_js_sel:
  "js_plus exact_js = add_exact" "js_minus exact_js = sub_exact"
  "js_parseFloat exact_js = parseFloat_exact" "js_toLowerCase exact_js = toLowerCase_ascii"
  by (simp_all add: exact_js_def)

lemma includes_empty: "includes_str t [] = True"
  by (cases t) simp_all

lemma filtered_all:
  "searchQuery s = [] \<Longrightarrow> filterCategory s = ''all'' \<Longrightarrow>
   filteredExpenses exact_js s = expenses s"
  by (simp add: filteredExpenses_def matchesSearch_def matchesCategory_def exact_js_sel
      toLowerCase_ascii_def includes_empty)

lemmas run_eval = run_def run_from_def initial_state_def manual_form_def ok_reply_def clock_at_def
  no_arrays_def empty_receipt_def receipt_selected_def sheet_row_def import_rows_def
  handleManualSubmit_def handleExcelSelect_def processExcelFile_def handleExcelConfirm_def
  handleImageSelect_def processImage_def handleImageConfirm_def delete_expense_def
  addNotification_def excel_expense_def placeholder_def parseFloat_val_def str_or_def
  num_or_def js_or_def truthy_def js_le_def zero_jsnum_def Let_def enumerate_eq_zip
  exact_js_sel parseFloat_eval toString_eval toString_small

lemma same_clock_ids:
  "map expense_id (expenses (run exact_js same_clock_run)) =
     [''1767225660000'', ''1767225660000'']"
  by (simp add: same_clock_run_def run_eval)

lemma zero_amount: "map amount (expenses (run exact_js zero_amount_run)) = [Fin 0]"
  by (simp add: zero_amount_run_def run_eval)

lemma later_clock_ids:
  "map expense_id (expenses (run exact_js later_clock_run)) =
     [''1767225690000-0'', ''1767225670000'', ''1767225660000'']"
  by (simp add: later_clock_run_def run_eval)

lemma tie_run_state:
  "searchQuery (run exact_js tie_run) = []" "filterCategory (run exact_js tie_run) = ''all''"
  "expenses (run exact_js tie_run) =
     [imported_row ''0'' (Fin 10) ''Shopping'', imported_row ''1'' (Fin 30) ''Travel'',
      imported_row ''2'' (Fin 30) ''Healthcare'']"
  by (simp_all add: tie_run_def run_eval imported_row_def)

lemma index_tie_state:
  "searchQuery (run exact_js index_tie_run) = []"
  "filterCategory (run exact_js index_tie_run) = ''all''"
  "expenses (run exact_js index_tie_run) =
     [imported_row ''0'' (Fin 10) ''2'', imported_row ''1'' (Fin 10) ''1'']"
  by (simp_all add: index_tie_run_def run_eval imported_row_def)

lemma inherited_name_state:
  "searchQuery (run exact_js inherited_name_run) = []"
  "filterCategory (run exact_js inherited_name_run) = ''all''"
  "expenses (run exact_js inherited_name_run) =
     [imported_row ''0'' (Fin 10) ''Travel'', imported_row ''1'' (Fin 50) ''constructor'']"
  by (simp_all add: inherited_name_run_def run_eval imported_row_def)

lemma infinity_state:
  "searchQuery (run exact_js infinity_run) = []"
  "filterCategory (run exact_js infinity_run) = ''all''"
  "expenses (run exact_js infinity_run) =
     [imported_row ''0'' PInf ''Travel'', imported_row ''1'' NInf ''Travel'',
      imported_row ''2'' (Fin 50) ''Travel'', imported_row ''3'' (Fin 30) ''Shopping'']"
  by (simp_all add: infinity_run_def run_eval imported_row_def)

lemma array_index_eval:
  "array_index ''2'' = Some 2" "array_index ''1'' = Some 1"
  "array_index ''Travel'' = None" "array_index ''Shopping'' = None"
  "array_index ''Healthcare'' = None" "array_index ''constructor'' = None"
  by (simp_all add: array_index_def is_digit_def digits_val_def)

lemmas view_eval = topCategory_def categoryTotals_def category_sum_def sum_of_def sum_left_def
  reduce_def imported_row_def assign_def add_to_total_def object_prototype_names_def
  exact_js_sel zero_jsnum_def js_or_def truthy_def Object_entries_def is_index_def index_of_def
  array_index_eval sort_by_def by_total_descending_def to_number_def sub_exact_def

lemma index_tie_filtered:
  "filteredExpenses exact_js (run exact_js index_tie_run) =
     [imported_row ''0'' (Fin 10) ''2'', imported_row ''1'' (Fin 10) ''1'']"
  by (simp add: filtered_all [OF index_tie_state(1,2)] index_tie_state(3))

lemma index_tie_top:
  "topCategory exact_js (run exact_js index_tie_run) = Some (''1'', Number (Fin 10))"
  "category_sum exact_js (run exact_js index_tie_run) ''2'' = Fin 10"
  "category_sum exact_js (run exact_js index_tie_run) ''1'' = Fin 10"
  by (simp_all add: index_tie_filtered view_eval)

lemma inherited_name_filtered:
  "filteredExpenses exact_js (run exact_js inherited_name_run) =
     [imported_row ''0'' (Fin 10) ''Travel'', imported_row ''1'' (Fin 50) ''constructor'']"
  by (simp add: filtered_all [OF inherited_name_state(1,2)] inherited_name_state(3))

lemma inherited_name_top:
  "topCategory exact_js (run exact_js inherited_name_run) = Some (''Travel'', Number (Fin 10))"
  "category_sum exact_js (run exact_js inherited_name_run) ''constructor'' = Fin 50"
  by (simp_all add: inherited_name_filtered view_eval)

lemma infinity_filtered:
  "filteredExpenses exact_js (run exact_js infinity_run) =
     [imported_row ''0'' PInf ''Travel'', imported_row ''1'' NInf ''Travel'',
      imported_row ''2'' (Fin 50) ''Travel'', imported_row ''3'' (Fin 30) ''Shopping'']"
  by (simp add: filtered_all [OF infinity_state(1,2)] infinity_state(3))

lemma infinity_top:
  "topCategory exact_js (run exact_js infinity_run) = Some (''Travel'', Number (Fin 50))"
  "category_sum exact_js (run exact_js infinity_run) ''Shopping'' = Fin 30"
  "category_sum exact_js (run exact_js infinity_run) ''Travel'' = NaN"
  by (simp_all add: infinity_filtered view_eval)

lemma tie_filtered:
  "filteredExpenses exact_js (run exact_js tie_run) =
     [imported_row ''0'' (Fin 10) ''Shopping'', imported_row ''1'' (Fin 30) ''Travel'',
      imported_row ''2'' (Fin 30) ''Healthcare'']"
  by (simp add: filtered_all [OF tie_run_state(1,2)] tie_run_state(3))

lemma tie_hyps:
  "filteredExpenses exact_js (run exact_js tie_run) \<noteq> []"
  "no_NaN_sum exact_js (filteredExpenses exact_js (run exact_js tie_run))"
  "list_all (\<lambda>e. category e \<notin> set object_prototype_names)
     (filteredExpenses exact_js (run exact_js tie_run))"
  "list_all (\<lambda>e. array_index (category e) = None)
     (filteredExpenses exact_js (run exact_js tie_run))"
  by (simp_all add: tie_filtered no_NaN_sum_def sum_of_def sum_left_def imported_row_def
      exact_js_sel zero_jsnum_def object_prototype_names_def array_index_eval)

lemma minus_orders_exact: "minus_orders exact_js"
  unfolding minus_orders_def exact_js_sel
proof (intro allI impI)
  fix x y :: jsnum
  assume "x \<noteq> NaN \<and> y \<noteq> NaN"
  then show "js_less 0 (sub_exact y x) = js_less x y"
    by (cases x; cases y) (simp_all add: sub_exact_def zero_jsnum_def)
qed


section \<open>Properties of the top category\<close>

lemma obj_set_keys:
  "map fst (obj_set ob k v) = (if k \<in> set (map fst ob) then map fst ob else map fst ob @ [k])"
proof (induction ob)
  case Nil
  show ?case by simp
next
  case (Cons p ob)
  obtain k' v' where p: "p = (k', v')" by (cases p)
  show ?case
  proof (cases "k' = k")
    case True
    with p show ?thesis by simp
  next
    case False
    with p Cons.IH show ?thesis by simp
  qed
qed

lemma obj_get_set: "obj_get (obj_set ob k v) k' = (if k' = k then Some v else obj_get ob k')"
  by (induction ob) auto

lemma obj_get_None: "obj_get ob k = None \<longleftrightarrow> k \<notin> set (map fst ob)"
proof (induction ob)
  case Nil
  show ?case by simp
next
  case (Cons p ob)
  obtain k' v' where p: "p = (k', v')" by (cases p)
  show ?case
  proof (cases "k' = k")
    case True
    with p show ?thesis by simp
  next
    case False
    with p Cons.IH show ?thesis by simp
  qed
qed

lemma obj_get_mem: "distinct (map fst ob) \<Longrightarrow> (k, v) \<in> set ob \<longleftrightarrow> obj_get ob k = Some v"
proof (induction ob)
  case Nil
  show ?case by simp
next
  case (Cons p ob)
  obtain k' v' where p: "p = (k', v')" by (cases p)
  from Cons.prems p have nk: "k' \<notin> fst ` set ob" and d: "distinct (map fst ob)"
    by auto
  show ?case
  proof (cases "k' = k")
    case True
    with nk have "(k, v) \<notin> set ob" by force
    with True p show ?thesis by auto
  next
    case False
    with Cons.IH [OF d] p show ?thesis by auto
  qed
qed

lemma js_or_number: "x \<noteq> NaN \<Longrightarrow> js_or x 0 = x"
  by (auto simp: js_or_def truthy_def zero_jsnum_def)

lemma sum_of_snoc:
  "sum_of b (fs @ [e]) c =
     (if category e = c then js_plus b (sum_of b fs c) (amount e) else sum_of b fs c)"
  by (simp add: sum_of_def sum_left_def)

lemma sum_of_absent: "c \<notin> category ` set fs \<Longrightarrow> sum_of b fs c = 0"
proof -
  assume "c \<notin> category ` set fs"
  then have "filter (\<lambda>e. category e = c) fs = []"
    by (auto simp: filter_empty_conv)
  then show ?thesis by (simp add: sum_of_def sum_left_def)
qed

lemma no_NaN_sumD:
  assumes "no_NaN_sum b fs" and "prefix ps fs" and "c \<in> category ` set ps"
  shows "sum_of b ps c \<noteq> NaN"
proof -
  from assms(2) have "ps \<in> set (prefixes fs)"
    by (simp add: in_set_prefixes)
  with assms(1) have "\<forall>e\<in>set ps. sum_of b ps (category e) \<noteq> NaN"
    by (simp add: no_NaN_sum_def list_all_iff)
  with assms(3) show ?thesis by auto
qed

lemma takeWhile_snoc_present:
  "k \<in> set xs \<Longrightarrow> takeWhile (\<lambda>x. x \<noteq> k) (xs @ ys) = takeWhile (\<lambda>x. x \<noteq> k) xs"
  by (induction xs) auto

lemma takeWhile_snoc_absent:
  "k \<notin> set xs \<Longrightarrow> takeWhile (\<lambda>x. x \<noteq> k) (xs @ [k]) = xs"
  by (induction xs) auto

lemma takeWhile_absent: "k \<notin> set xs \<Longrightarrow> takeWhile (\<lambda>x. x \<noteq> k) xs = xs"
  by (induction xs) auto

lemma totals_invariant:
  assumes nn: "no_NaN_sum b fs"
    and own: "\<forall>e\<in>set fs. category e \<notin> set object_prototype_names"
  shows "prefix ps fs \<Longrightarrow>
         distinct (map fst (totals_of b ps)) \<and>
         set (map fst (totals_of b ps)) = category ` set ps \<and>
         (\<forall>k\<in>category ` set ps. obj_get (totals_of b ps) k = Some (Number (sum_of b ps k))) \<and>
         (\<forall>k\<in>category ` set ps.
            set (takeWhile (\<lambda>x. x \<noteq> k) (map fst (totals_of b ps))) =
            set (takeWhile (\<lambda>x. x \<noteq> k) (map category ps)))"
proof (induction ps rule: rev_induct)
  case Nil
  show ?case by (simp add: totals_of_def)
next
  case (snoc e ps)
  let ?acc = "totals_of b ps" and ?k = "category e"
  from snoc.prems have pre: "prefix ps fs"
    by (rule append_prefixD)
  from snoc.prems have "e \<in> set fs"
    by (auto simp: prefix_def)
  with own have oe: "?k \<notin> set object_prototype_names"
    by blast
  from snoc.IH [OF pre] have d: "distinct (map fst ?acc)"
    and keys: "set (map fst ?acc) = category ` set ps"
    and vals: "\<forall>k\<in>category ` set ps. obj_get ?acc k = Some (Number (sum_of b ps k))"
    and ord: "\<forall>k\<in>category ` set ps.
            set (takeWhile (\<lambda>x. x \<noteq> k) (map fst ?acc)) =
            set (takeWhile (\<lambda>x. x \<noteq> k) (map category ps))"
    by blast+
  have np: "?k \<noteq> ''__proto__''"
    using oe by (auto simp: object_prototype_names_def)
  have step: "totals_of b (ps @ [e]) = obj_set ?acc ?k (add_to_total b ?acc ?k (amount e))"
    using np by (simp add: totals_of_def assign_def)
  have newval: "add_to_total b ?acc ?k (amount e) = Number (sum_of b (ps @ [e]) ?k)"
  proof (cases "?k \<in> category ` set ps")
    case True
    with vals have "obj_get ?acc ?k = Some (Number (sum_of b ps ?k))" by blast
    moreover have "js_or (sum_of b ps ?k) 0 = sum_of b ps ?k"
      by (rule js_or_number) (rule no_NaN_sumD [OF nn pre True])
    ultimately show ?thesis
      by (simp add: add_to_total_def sum_of_snoc)
  next
    case False
    with keys have "obj_get ?acc ?k = None"
      by (simp add: obj_get_None)
    with oe False show ?thesis
      by (simp add: add_to_total_def sum_of_snoc sum_of_absent)
  qed
  have keys': "map fst (totals_of b (ps @ [e])) =
      (if ?k \<in> category ` set ps then map fst ?acc else map fst ?acc @ [?k])"
    unfolding step obj_set_keys using keys by simp
  have c1: "distinct (map fst (totals_of b (ps @ [e])))"
    unfolding keys' using d keys by auto
  have c2: "set (map fst (totals_of b (ps @ [e]))) = category ` set (ps @ [e])"
    unfolding keys' using keys by auto
  have c3: "obj_get (totals_of b (ps @ [e])) k = Some (Number (sum_of b (ps @ [e]) k))"
    if "k \<in> category ` set (ps @ [e])" for k
  proof (cases "k = ?k")
    case True
    then show ?thesis by (simp add: step obj_get_set newval)
  next
    case False
    with that have "k \<in> category ` set ps" by auto
    with vals have "obj_get ?acc k = Some (Number (sum_of b ps k))" by blast
    with False show ?thesis by (simp add: step obj_get_set sum_of_snoc)
  qed
  have c4: "set (takeWhile (\<lambda>x. x \<noteq> k) (map fst (totals_of b (ps @ [e])))) =
            set (takeWhile (\<lambda>x. x \<noteq> k) (map category (ps @ [e])))"
    if "k \<in> category ` set (ps @ [e])" for k
  proof (cases "k \<in> category ` set ps")
    case True
    then have a: "k \<in> set (map fst ?acc)" and b: "k \<in> set (map category ps)"
      using keys by auto
    have "takeWhile (\<lambda>x. x \<noteq> k) (map fst (totals_of b (ps @ [e]))) =
          takeWhile (\<lambda>x. x \<noteq> k) (map fst ?acc)"
      unfolding keys' using a by (simp add: takeWhile_snoc_present)
    moreover have "takeWhile (\<lambda>x. x \<noteq> k) (map category (ps @ [e])) =
          takeWhile (\<lambda>x. x \<noteq> k) (map category ps)"
      using b by (simp add: takeWhile_snoc_present)
    moreover from ord True
    have "set (takeWhile (\<lambda>x. x \<noteq> k) (map fst ?acc)) =
          set (takeWhile (\<lambda>x. x \<noteq> k) (map category ps))"
      by blast
    ultimately show ?thesis by simp
  next
    case False
    with that have k: "k = ?k" by auto
    from False keys have a: "k \<notin> set (map fst ?acc)" and b: "k \<notin> set (map category ps)"
      by auto
    have "takeWhile (\<lambda>x. x \<noteq> k) (map fst (totals_of b (ps @ [e]))) = map fst ?acc"
      unfolding keys' using a False k by (simp add: takeWhile_snoc_absent)
    moreover have "takeWhile (\<lambda>x. x \<noteq> k) (map category (ps @ [e])) = map category ps"
      using b k by (simp add: takeWhile_snoc_absent)
    ultimately show ?thesis using keys by simp
  qed
  from c1 c2 c3 c4 show ?case by blast
qed

lemma number_total: "x \<noteq> NaN \<Longrightarrow> y \<noteq> NaN \<Longrightarrow> \<not> js_less x y \<Longrightarrow> js_le y x"
  by (cases x; cases y) (auto simp: js_le_def)

lemma number_le_refl: "x \<noteq> NaN \<Longrightarrow> js_le x x"
  by (simp add: js_le_def)

lemma js_less_irrefl: "\<not> js_less x x"
  by (cases x) simp_all

lemma js_less_le: "js_less x y \<Longrightarrow> js_le x y"
  by (cases x; cases y) (auto simp: js_le_def)

lemma js_le_trans: "js_le x y \<Longrightarrow> js_le y z \<Longrightarrow> js_le x z"
  by (cases x; cases y; cases z) (auto simp: js_le_def)

lemma sort_by_Cons: "sort_by cmp (x # xs) = insert_by cmp x (sort_by cmp xs)"
  by (simp add: sort_by_def)

lemma sort_by_Nil_iff: "sort_by cmp xs = [] \<longleftrightarrow> xs = []"
proof (cases xs)
  case Nil
  then show ?thesis by (simp add: sort_by_def)
next
  case (Cons x xs')
  have "insert_by cmp x ys \<noteq> []" for ys
    by (cases ys) auto
  with Cons show ?thesis by (simp add: sort_by_Cons)
qed

lemma sort_head:
  assumes mo: "minus_orders b" and "es \<noteq> []" and "\<forall>p\<in>set es. tv p \<noteq> NaN"
  shows "\<exists>m rest. sort_by (by_total_descending b) es = m # rest \<and> m \<in> set es \<and>
           (\<forall>p\<in>set es. js_le (tv p) (tv m)) \<and>
           (\<forall>p\<in>set (takeWhile (\<lambda>p. fst p \<noteq> fst m) es). js_less (tv p) (tv m))"
  using assms(2,3)
proof (induction es)
  case Nil
  then show ?case by simp
next
  case (Cons x xs)
  from Cons.prems have fx: "tv x \<noteq> NaN" and fxs: "\<forall>p\<in>set xs. tv p \<noteq> NaN"
    by auto
  show ?case
  proof (cases "xs = []")
    case True
    then have "sort_by (by_total_descending b) (x # xs) = [x]"
      by (simp add: sort_by_def)
    with True fx show ?thesis
      by (auto simp: number_le_refl)
  next
    case False
    from Cons.IH [OF False fxs] obtain m rest where
      s: "sort_by (by_total_descending b) xs = m # rest" and m: "m \<in> set xs"
      and mx: "\<forall>p\<in>set xs. js_le (tv p) (tv m)"
      and bf: "\<forall>p\<in>set (takeWhile (\<lambda>p. fst p \<noteq> fst m) xs). js_less (tv p) (tv m)"
      by blast
    from m fxs have fm: "tv m \<noteq> NaN" by blast
    have cmp: "js_less 0 (by_total_descending b x m) = js_less (tv x) (tv m)"
      using mo fx fm by (simp add: minus_orders_def by_total_descending_def tv_def)
    show ?thesis
    proof (cases "js_less (tv x) (tv m)")
      case True
      then have h: "sort_by (by_total_descending b) (x # xs) =
          m # insert_by (by_total_descending b) x rest"
        by (simp add: sort_by_Cons s cmp)
      have a: "\<forall>p\<in>set (x # xs). js_le (tv p) (tv m)"
        using mx True js_less_le by auto
      have b: "\<forall>p\<in>set (takeWhile (\<lambda>p. fst p \<noteq> fst m) (x # xs)). js_less (tv p) (tv m)"
        using bf True by auto
      from h m a b show ?thesis by auto
    next
      case False
      then have h: "sort_by (by_total_descending b) (x # xs) = x # m # rest"
        by (simp add: sort_by_Cons s cmp)
      from False have le: "js_le (tv m) (tv x)"
        by (rule number_total [OF fx fm])
      have a: "\<forall>p\<in>set (x # xs). js_le (tv p) (tv x)"
      proof
        fix p assume "p \<in> set (x # xs)"
        then consider "p = x" | "p \<in> set xs" by auto
        then show "js_le (tv p) (tv x)"
        proof cases
          case 1
          with fx show ?thesis by (simp add: number_le_refl)
        next
          case 2
          with mx have "js_le (tv p) (tv m)" by blast
          with le show ?thesis by (meson js_le_trans)
        qed
      qed
      from h a show ?thesis by auto
    qed
  qed
qed

lemma set_Object_entries: "set (Object_entries ob) = set ob"
  by (auto simp: Object_entries_def)

lemma Object_entries_no_index:
  "\<forall>p\<in>set ob. array_index (fst p) = None \<Longrightarrow> Object_entries ob = ob"
proof -
  assume a: "\<forall>p\<in>set ob. array_index (fst p) = None"
  then have "filter is_index ob = []" "filter (\<lambda>p. \<not> is_index p) ob = ob"
    by (auto simp: is_index_def filter_empty_conv filter_id_conv)
  then show ?thesis by (simp add: Object_entries_def)
qed

lemma categoryTotals_totals_of: "categoryTotals b s = totals_of b (filteredExpenses b s)"
  by (simp add: categoryTotals_def totals_of_def reduce_def)

text \<open>
  C2, as the code has it. Let the filtered list be non-empty, let no running sum of a
  category be NaN, and let no filtered category be named like a member of
  \<open>Object.prototype\<close>; of the subtraction of the language only this is used: for numbers
  \<open>x\<close> and \<open>y\<close>, \<open>y - x\<close> is greater than 0 exactly when \<open>x\<close> is less than \<open>y\<close>. Then the top
  category is a category of the filtered list, reported with its summed amount, and that
  sum is maximal among the filtered categories. Of several categories with that sum the
  one that \<open>Object.entries\<close> lists first is chosen: every entry listed before it has a
  strictly smaller total. When no filtered category is named like an array index, that is
  the one appearing first in the filtered list.
\<close>

theorem top_category_is_first_maximal:
  assumes mo: "minus_orders b"
    and ne: "filteredExpenses b s \<noteq> []"
    and nn: "no_NaN_sum b (filteredExpenses b s)"
    and own: "\<forall>e\<in>set (filteredExpenses b s). category e \<notin> set object_prototype_names"
  shows "\<exists>c. topCategory b s = Some (c, Number (category_sum b s c)) \<and>
          c \<in> category ` set (filteredExpenses b s) \<and>
          (\<forall>c'\<in>category ` set (filteredExpenses b s).
              js_le (category_sum b s c') (category_sum b s c)) \<and>
          (\<forall>p\<in>set (takeWhile (\<lambda>p. fst p \<noteq> c) (Object_entries (categoryTotals b s))).
              js_less (to_number (snd p)) (category_sum b s c)) \<and>
          ((\<forall>e\<in>set (filteredExpenses b s). array_index (category e) = None) \<longrightarrow>
             (\<forall>c'\<in>category ` set (filteredExpenses b s).
                 c' \<noteq> c \<and> category_sum b s c' = category_sum b s c \<longrightarrow>
                 c' \<notin> set (takeWhile (\<lambda>x. x \<noteq> c) (map category (filteredExpenses b s)))))"
proof -
  let ?fs = "filteredExpenses b s"
  let ?ob = "totals_of b ?fs"
  let ?es = "Object_entries ?ob"
  have cs: "category_sum b s k = sum_of b ?fs k" for k
    by (simp add: category_sum_def)
  from totals_invariant [OF nn own, of ?fs] have d: "distinct (map fst ?ob)"
    and keys: "set (map fst ?ob) = category ` set ?fs"
    and vals: "\<forall>k\<in>category ` set ?fs. obj_get ?ob k = Some (Number (sum_of b ?fs k))"
    and ord: "\<forall>k\<in>category ` set ?fs.
            set (takeWhile (\<lambda>x. x \<noteq> k) (map fst ?ob)) =
            set (takeWhile (\<lambda>x. x \<noteq> k) (map category ?fs))"
    by simp_all
  have entry: "fst p \<in> category ` set ?fs \<and> snd p = Number (sum_of b ?fs (fst p))"
    if "p \<in> set ?ob" for p
  proof -
    from that have k: "fst p \<in> category ` set ?fs"
      using keys by force
    from that have "(fst p, snd p) \<in> set ?ob" by simp
    then have "obj_get ?ob (fst p) = Some (snd p)"
      using obj_get_mem [OF d] by blast
    with vals k show ?thesis by auto
  qed
  have mem: "(k, Number (sum_of b ?fs k)) \<in> set ?ob" if "k \<in> category ` set ?fs" for k
    using that vals obj_get_mem [OF d] by blast
  have nn_sum: "sum_of b ?fs k \<noteq> NaN" if "k \<in> category ` set ?fs" for k
    using no_NaN_sumD [OF nn _ that] by simp
  from ne keys have "?ob \<noteq> []" by auto
  then have ne_es: "?es \<noteq> []"
    using set_Object_entries [of ?ob] by (metis set_empty)
  have nn_es: "\<forall>p\<in>set ?es. tv p \<noteq> NaN"
    using entry nn_sum by (auto simp: set_Object_entries tv_def to_number_def)
  from sort_head [OF mo ne_es nn_es] obtain m rest where
    s: "sort_by (by_total_descending b) ?es = m # rest" and m: "m \<in> set ?es"
    and mx: "\<forall>p\<in>set ?es. js_le (tv p) (tv m)"
    and bf: "\<forall>p\<in>set (takeWhile (\<lambda>p. fst p \<noteq> fst m) ?es). js_less (tv p) (tv m)"
    by blast
  let ?c = "fst m"
  from m entry [of m] have c: "?c \<in> category ` set ?fs" and v: "snd m = Number (sum_of b ?fs ?c)"
    by (auto simp: set_Object_entries)
  have tvm: "tv m = sum_of b ?fs ?c"
    by (simp add: tv_def v to_number_def)
  have top: "topCategory b s = Some (?c, Number (category_sum b s ?c))"
    using s v by (simp add: topCategory_def categoryTotals_totals_of cs prod_eq_iff)
  have mx': "\<forall>c'\<in>category ` set ?fs. js_le (category_sum b s c') (category_sum b s ?c)"
  proof
    fix c' assume "c' \<in> category ` set ?fs"
    then have "(c', Number (sum_of b ?fs c')) \<in> set ?es"
      using mem by (simp add: set_Object_entries)
    with mx have "js_le (tv (c', Number (sum_of b ?fs c'))) (tv m)" by blast
    then have "js_le (sum_of b ?fs c') (sum_of b ?fs ?c)"
      unfolding tvm by (simp add: tv_def to_number_def)
    then show "js_le (category_sum b s c') (category_sum b s ?c)"
      by (simp add: cs)
  qed
  have bf': "\<forall>p\<in>set (takeWhile (\<lambda>p. fst p \<noteq> ?c) (Object_entries (categoryTotals b s))).
              js_less (to_number (snd p)) (category_sum b s ?c)"
    using bf by (simp add: categoryTotals_totals_of cs tvm [symmetric] tv_def)
  have tie: "c' \<notin> set (takeWhile (\<lambda>x. x \<noteq> ?c) (map category ?fs))"
    if noidx: "\<forall>e\<in>set ?fs. array_index (category e) = None"
      and c': "c' \<in> category ` set ?fs" and eq: "category_sum b s c' = category_sum b s ?c"
    for c'
  proof
    assume "c' \<in> set (takeWhile (\<lambda>x. x \<noteq> ?c) (map category ?fs))"
    with ord c have "c' \<in> set (takeWhile (\<lambda>x. x \<noteq> ?c) (map fst ?ob))"
      by blast
    then have "c' \<in> set (map fst (takeWhile (\<lambda>p. fst p \<noteq> ?c) ?ob))"
      by (simp add: takeWhile_map comp_def)
    then obtain p where p: "p \<in> set (takeWhile (\<lambda>p. fst p \<noteq> ?c) ?ob)" "fst p = c'"
      by auto
    have "\<forall>p\<in>set ?ob. array_index (fst p) = None"
    proof
      fix q assume "q \<in> set ?ob"
      with entry [of q] obtain e where "e \<in> set ?fs" "fst q = category e"
        by blast
      with noidx show "array_index (fst q) = None" by simp
    qed
    then have "?es = ?ob" by (rule Object_entries_no_index)
    with bf p(1) have less: "js_less (tv p) (tv m)" by simp
    from p(1) have "p \<in> set ?ob" by (rule set_takeWhileD [THEN conjunct1])
    with entry [of p] p(2) have "tv p = sum_of b ?fs c'"
      by (simp add: tv_def to_number_def)
    with less eq have "js_less (sum_of b ?fs ?c) (sum_of b ?fs ?c)"
      by (simp add: tvm cs)
    then show False by (simp add: js_less_irrefl)
  qed
  from top c mx' bf' tie show ?thesis by blast
qed

section \<open>Properties of the capture handlers\<close>

lemma js_less_NaN_right [simp]: "js_less x NaN = False"
  by (cases x) simp_all

lemma js_less_not_le: "js_less 0 x \<Longrightarrow> \<not> js_le x 0"
  by (cases x) (auto simp: js_le_def zero_jsnum_def)

lemma not_greater_le: "x \<noteq> NaN \<Longrightarrow> \<not> js_less 0 x \<Longrightarrow> js_le x 0"
  by (cases x) (auto simp: js_le_def zero_jsnum_def)

lemma str_or_nonempty: "d \<noteq> [] \<Longrightarrow> str_or m d \<noteq> []"
  by (simp add: str_or_def split: option.splits)

text \<open>
  C3. Submitting a valid manual expense (the amount field is filled and \<open>parseFloat\<close>
  reads a value greater than 0 from it, the category is not empty, the agent call
  succeeds) puts one new record at the head of the ledger, built from the form, and keeps
  every earlier record behind it, unchanged and in order: the ledger grows by exactly
  one. This holds whatever \<open>parseFloat\<close> is.
\<close>

theorem manual_submit_adds_at_head:
  assumes "manualAmount s \<noteq> []"
    and "js_less 0 (js_parseFloat b (manualAmount s))"
    and "manualCategory s \<noteq> []"
    and "status r = ''success''"
  shows "expenses (fst (handleManualSubmit b (Returned True r) c t s)) =
           \<lparr>expense_id = toString_nat (now c), amount = js_parseFloat b (manualAmount s),
            category = manualCategory s, notes_e = manualNotes s, date = iso c,
            source = Manual, confidence = None\<rparr> # expenses s \<and>
         length (expenses (fst (handleManualSubmit b (Returned True r) c t s))) =
           length (expenses s) + 1"
proof -
  from assms(2) have "\<not> js_le (js_parseFloat b (manualAmount s)) 0"
    by (rule js_less_not_le)
  with assms(1,3,4) show ?thesis
    by (simp add: handleManualSubmit_def Let_def addNotification_def)
qed

theorem manual_submit_adds_at_head_witness:
  "manualAmount (manual_form ''12.5'' ''Travel'') \<noteq> [] \<and>
   js_less 0 (js_parseFloat exact_js (manualAmount (manual_form ''12.5'' ''Travel''))) \<and>
   manualCategory (manual_form ''12.5'' ''Travel'') \<noteq> [] \<and>
   length (expenses (fst (handleManualSubmit exact_js (ok_reply ()) (clock_at 1767225660000)
                            1767225660000 (manual_form ''12.5'' ''Travel'')))) =
     length (expenses (manual_form ''12.5'' ''Travel'')) + 1"
proof -
  have h0: "manualAmount (manual_form ''12.5'' ''Travel'') \<noteq> []"
    by (simp add: manual_form_def initial_state_def)
  have h1: "js_less 0 (js_parseFloat exact_js (manualAmount (manual_form ''12.5'' ''Travel'')))"
    by (simp add: manual_form_def initial_state_def exact_js_sel parseFloat_eval zero_jsnum_def)
  have h2: "manualCategory (manual_form ''12.5'' ''Travel'') \<noteq> []"
    by (simp add: manual_form_def initial_state_def)
  have h3: "status \<lparr>status = ''success'', message = None, result = ()\<rparr> = ''success''"
    by simp
  from manual_submit_adds_at_head [OF h0 h1 h2 h3, of "clock_at 1767225660000" 1767225660000]
    h0 h1 h2
  show ?thesis
    unfolding ok_reply_def by blast
qed

text \<open>
  C5. The amount field is a number input: it holds either nothing or a text from which
  \<open>parseFloat\<close> reads a number. A submission whose amount is then not greater than 0 (the
  field is empty, or the number read is not greater than 0), or whose category is empty,
  is rejected: the handler sets a non-empty field error, makes no call, and changes
  nothing else of the state, the ledger included. This holds whatever \<open>parseFloat\<close> is.
\<close>

theorem manual_validation_rejects:
  assumes "manualAmount s = [] \<or> js_parseFloat b (manualAmount s) \<noteq> NaN"
    and "manualAmount s = [] \<or> \<not> js_less 0 (js_parseFloat b (manualAmount s)) \<or>
         manualCategory s = []"
  shows "\<exists>msg. msg \<noteq> [] \<and> handleManualSubmit b agent c t s = (s\<lparr>manualError := msg\<rparr>, [])"
proof -
  from assms have "manualAmount s = [] \<or> js_le (js_parseFloat b (manualAmount s)) 0 \<or>
      manualCategory s = []"
    using not_greater_le by blast
  then show ?thesis
    by (auto simp add: handleManualSubmit_def Let_def)
qed

theorem manual_validation_rejects_witness:
  "js_parseFloat exact_js (manualAmount (manual_form ''-3'' ''Travel'')) \<noteq> NaN \<and>
   \<not> js_less 0 (js_parseFloat exact_js (manualAmount (manual_form ''-3'' ''Travel''))) \<and>
   (\<exists>msg. msg \<noteq> [] \<and>
      handleManualSubmit exact_js (ok_reply ()) (clock_at 1767225660000) 1767225660000
          (manual_form ''-3'' ''Travel'') =
        ((manual_form ''-3'' ''Travel'')\<lparr>manualError := msg\<rparr>, []))"
proof -
  have h1: "js_parseFloat exact_js (manualAmount (manual_form ''-3'' ''Travel'')) \<noteq> NaN"
    by (simp add: manual_form_def initial_state_def exact_js_sel parseFloat_eval)
  have h2: "\<not> js_less 0 (js_parseFloat exact_js (manualAmount (manual_form ''-3'' ''Travel'')))"
    by (simp add: manual_form_def initial_state_def exact_js_sel parseFloat_eval zero_jsnum_def)
  from h1 have a: "manualAmount (manual_form ''-3'' ''Travel'') = [] \<or>
      js_parseFloat exact_js (manualAmount (manual_form ''-3'' ''Travel'')) \<noteq> NaN"
    by blast
  from h2 have b: "manualAmount (manual_form ''-3'' ''Travel'') = [] \<or>
      \<not> js_less 0 (js_parseFloat exact_js (manualAmount (manual_form ''-3'' ''Travel''))) \<or>
      manualCategory (manual_form ''-3'' ''Travel'') = []"
    by blast
  from manual_validation_rejects [OF a b] h1 h2 show ?thesis
    by blast
qed

lemma manual_failure:
  assumes "agent_failed a"
  shows "expenses (fst (handleManualSubmit b a c t s)) = expenses s"
    and "manualError (fst (handleManualSubmit b a c t s)) \<noteq> []"
  using assms
  by (auto simp add: handleManualSubmit_def agent_failed_def Let_def addNotification_def
      str_or_nonempty split: agent_result.splits)

lemma excel_failure:
  assumes "upload_failed u \<or> agent_failed a"
  shows "expenses (fst (processExcelFile f u a t s)) = expenses s"
    and "excelError (fst (processExcelFile f u a t s)) \<noteq> []"
    and "ntype (last (notifications (fst (processExcelFile f u a t s)))) = N_error"
  using assms
  by (auto simp add: processExcelFile_def agent_failed_def upload_failed_def Let_def
      addNotification_def str_or_nonempty split: agent_result.splits upload_result.splits)

lemma image_failure:
  assumes "upload_failed u \<or> agent_failed a"
  shows "expenses (fst (processImage f u a t s)) = expenses s"
    and "imageError (fst (processImage f u a t s)) \<noteq> []"
    and "ntype (last (notifications (fst (processImage f u a t s)))) = N_error"
  using assms
  by (auto simp add: processImage_def agent_failed_def upload_failed_def Let_def
      addNotification_def str_or_nonempty split: agent_result.splits upload_result.splits)

text \<open>
  C6. On each capture path a failure (the upload fails, the agent call throws, or the
  reply is not a successful one) leaves the ledger exactly as it was and sets a non-empty
  error message; the spreadsheet and image paths add an error notification as well.
\<close>

theorem failure_leaves_ledger_unchanged:
  "(agent_failed a \<longrightarrow>
      expenses (fst (handleManualSubmit b a c t s)) = expenses s \<and>
      manualError (fst (handleManualSubmit b a c t s)) \<noteq> []) \<and>
   (upload_failed u \<or> agent_failed x \<longrightarrow>
      expenses (fst (processExcelFile f u x t s)) = expenses s \<and>
      excelError (fst (processExcelFile f u x t s)) \<noteq> [] \<and>
      ntype (last (notifications (fst (processExcelFile f u x t s)))) = N_error) \<and>
   (upload_failed u \<or> agent_failed y \<longrightarrow>
      expenses (fst (processImage g u y t s)) = expenses s \<and>
      imageError (fst (processImage g u y t s)) \<noteq> [] \<and>
      ntype (last (notifications (fst (processImage g u y t s)))) = N_error)"
  using manual_failure [of a b c t s] excel_failure [of u x f t s] image_failure [of u y g t s]
  by blast

theorem failure_leaves_ledger_unchanged_witness:
  "agent_failed (Threw :: unit agent_result) \<and>
   upload_failed (Uploaded False []) \<and>
   expenses (fst (handleManualSubmit exact_js Threw (clock_at 1767225660000) 1767225660000
                    (manual_form ''5'' ''Travel'')))
     = expenses (manual_form ''5'' ''Travel'') \<and>
   manualError (fst (handleManualSubmit exact_js Threw (clock_at 1767225660000) 1767225660000
                       (manual_form ''5'' ''Travel'')))
     \<noteq> [] \<and>
   expenses (fst (processExcelFile ''a.csv'' (Uploaded False []) Threw 1767225660000
                    (manual_form ''5'' ''Travel''))) = expenses (manual_form ''5'' ''Travel'') \<and>
   expenses (fst (processImage ''r.png'' (Uploaded False []) Threw 1767225660000
                    (manual_form ''5'' ''Travel''))) = expenses (manual_form ''5'' ''Travel'')"
proof -
  have h1: "agent_failed (Threw :: unit agent_result)"
    by (simp add: agent_failed_def)
  have h2: "upload_failed (Uploaded False [])"
    by (simp add: upload_failed_def)
  from h1 h2
    failure_leaves_ledger_unchanged [where a = "Threw :: unit agent_result" and b = exact_js
      and c = "clock_at 1767225660000" and t = 1767225660000
      and s = "manual_form ''5'' ''Travel''" and u = "Uploaded False []"
      and x = "Threw :: excel_data agent_result" and f = "''a.csv''"
      and y = "Threw :: image_data agent_result" and g = "''r.png''"]
  show ?thesis
    by blast
qed

text \<open>
  C7. Confirming a spreadsheet import with an empty preview, or an image entry with no
  extracted candidate, changes nothing: the state after the handler, the ledger with it,
  is the state before.
\<close>

theorem confirm_without_candidates_is_noop:
  "(excelPreview s = [] \<longrightarrow> handleExcelConfirm b clk t s = s) \<and>
   (extractedData s = None \<longrightarrow> handleImageConfirm b c t s = s)"
  by (simp add: handleExcelConfirm_def handleImageConfirm_def)

theorem confirm_without_candidates_is_noop_witness:
  "excelPreview initial_state = [] \<and> extractedData initial_state = None \<and>
   expenses (handleExcelConfirm exact_js clock_at 1767225660000 initial_state) =
     expenses initial_state \<and>
   expenses (handleImageConfirm exact_js (clock_at 1767225660000) 1767225660000 initial_state) =
     expenses initial_state"
proof -
  have h1: "excelPreview initial_state = []"
    by (simp add: initial_state_def)
  have h2: "extractedData initial_state = None"
    by (simp add: initial_state_def)
  from confirm_without_candidates_is_noop [where s = initial_state and b = exact_js
      and clk = clock_at and t = 1767225660000 and c = "clock_at 1767225660000"] h1 h2
  show ?thesis
    by simp
qed

text \<open>
  C8. When the upload succeeded and the agent's successful reply holds neither an
  \<open>expenses\<close> array nor an \<open>items\<close> array, the preview is exactly one placeholder
  candidate, of amount 50 and category \<open>Food & Dining\<close>, and no error is set.
\<close>

theorem unrecognized_reply_gives_placeholder:
  assumes "\<not> upload_failed u"
    and "status r = ''success''"
    and "expenses_field (result r) = None"
    and "items_field (result r) = None"
  shows "excelPreview (fst (processExcelFile f u (Returned True r) t s)) = [placeholder] \<and>
         item_amount placeholder = Num (Fin 50) \<and>
         item_category placeholder = Some ''Food & Dining'' \<and>
         excelError (fst (processExcelFile f u (Returned True r) t s)) = []"
  using assms
  by (simp add: processExcelFile_def upload_failed_def Let_def addNotification_def
      placeholder_def split: upload_result.splits)

theorem unrecognized_reply_gives_placeholder_witness:
  "\<not> upload_failed (Uploaded True [''asset-1'']) \<and>
   expenses_field no_arrays = None \<and> items_field no_arrays = None \<and>
   length (excelPreview (fst (processExcelFile ''a.csv'' (Uploaded True [''asset-1''])
                                (ok_reply no_arrays) 1767225660000 initial_state))) = 1"
proof -
  have h1: "\<not> upload_failed (Uploaded True [''asset-1''])"
    by (simp add: upload_failed_def)
  have h2: "status \<lparr>status = ''success'', message = None, result = no_arrays\<rparr> = ''success''"
    by simp
  have h3: "expenses_field (result \<lparr>status = ''success'', message = None, result = no_arrays\<rparr>) = None"
    by (simp add: no_arrays_def)
  have h4: "items_field (result \<lparr>status = ''success'', message = None, result = no_arrays\<rparr>) = None"
    by (simp add: no_arrays_def)
  from unrecognized_reply_gives_placeholder [OF h1 h2 h3 h4, of "''a.csv''" 1767225660000 initial_state]
    h1 h3 h4
  show ?thesis
    unfolding ok_reply_def by simp
qed


section \<open>Properties of the ledger\<close>

lemma not_le_zero: "\<not> js_le x 0 \<Longrightarrow> x = NaN \<or> js_less 0 x"
  by (cases x) (auto simp: js_le_def zero_jsnum_def)

lemma js_or_not_NaN: "js_or x 0 \<noteq> NaN"
  by (simp add: js_or_def truthy_def zero_jsnum_def)

lemma run_from_snoc: "run_from b s (evs @ [ev]) = step b ev (run_from b s evs)"
  by (simp add: run_from_def)

lemma run_from_Cons: "run_from b s (ev # evs) = run_from b (step b ev s) evs"
  by (simp add: run_from_def)

lemma run_from_Nil: "run_from b s [] = s"
  by (simp add: run_from_def)

lemma expenses_manual:
  "expenses (fst (handleManualSubmit b a c t s)) = expenses s \<or>
   (\<not> js_le (js_parseFloat b (manualAmount s)) 0 \<and>
    expenses (fst (handleManualSubmit b a c t s)) =
      \<lparr>expense_id = toString_nat (now c), amount = js_parseFloat b (manualAmount s),
       category = manualCategory s, notes_e = manualNotes s, date = iso c,
       source = Manual, confidence = None\<rparr> # expenses s)"
  by (simp add: handleManualSubmit_def Let_def addNotification_def split: agent_result.splits)

lemma expenses_processExcel: "expenses (fst (processExcelFile f u a t s)) = expenses s"
  by (simp add: processExcelFile_def Let_def addNotification_def
      split: agent_result.splits upload_result.splits)

lemma expenses_processImage: "expenses (fst (processImage f u a t s)) = expenses s"
  by (simp add: processImage_def Let_def addNotification_def
      split: agent_result.splits upload_result.splits)

lemma expenses_excelDrop: "expenses (fst (handleExcelDrop d u a t s)) = expenses s"
  by (simp add: handleExcelDrop_def expenses_processExcel split: option.splits)

lemma expenses_excelSelect: "expenses (fst (handleExcelSelect d u a t s)) = expenses s"
  by (simp add: handleExcelSelect_def expenses_processExcel split: option.splits)

lemma expenses_imageDrop: "expenses (fst (handleImageDrop d u a t s)) = expenses s"
  by (simp add: handleImageDrop_def expenses_processImage split: option.splits prod.splits)

lemma expenses_imageSelect: "expenses (fst (handleImageSelect d u a t s)) = expenses s"
  by (simp add: handleImageSelect_def expenses_processImage split: option.splits)

lemma expenses_excelConfirm:
  "expenses (handleExcelConfirm b clk t s) =
     map (excel_expense b clk) (enumerate 0 (excelPreview s)) @ expenses s"
  by (simp add: handleExcelConfirm_def Let_def addNotification_def)

lemma expenses_imageConfirm:
  "expenses (handleImageConfirm b c t s) =
     (case extractedData s of
        None \<Rightarrow> expenses s
      | Some x \<Rightarrow>
          \<lparr>expense_id = toString_nat (now c), amount = js_or (js_parseFloat b (x_amount x)) 0,
           category = x_category x, notes_e = x_notes x, date = iso c, source = Image,
           confidence = Some (c_overall (x_confidence x))\<rparr> # expenses s)"
  by (simp add: handleImageConfirm_def Let_def addNotification_def split: option.splits)

lemma expenses_other:
  "expenses (edit_amount v s) = expenses s"
  "expenses (edit_category v s) = expenses s"
  "expenses (edit_notes v s) = expenses s"
  "expenses (handleExcelCancel s) = expenses s"
  "expenses (handleImageCancel s) = expenses s"
  "expenses (notification_timeout i s) = expenses s"
  "expenses (delete_expense i s) = filter (\<lambda>e. expense_id e \<noteq> i) (expenses s)"
  by (simp_all add: edit_amount_def edit_category_def edit_notes_def handleExcelCancel_def
      handleImageCancel_def notification_timeout_def delete_expense_def)

lemmas expenses_step = expenses_processExcel expenses_processImage expenses_excelDrop
  expenses_excelSelect expenses_imageDrop expenses_imageSelect expenses_excelConfirm
  expenses_imageConfirm expenses_other

lemma amount_invariant_excel: "amount_invariant (excel_expense b clk p)"
  by (cases p) (simp add: amount_invariant_def excel_expense_def js_or_not_NaN)

lemma amount_invariant_step:
  assumes "\<forall>e\<in>set (expenses s). amount_invariant e"
  shows "\<forall>e\<in>set (expenses (step b ev s)). amount_invariant e"
proof (cases ev)
  case (Manual_submit a c t)
  with assms expenses_manual [of b a c t s] show ?thesis
    by (auto simp: amount_invariant_def dest!: not_le_zero)
next
  case (Excel_confirm clk t)
  with assms show ?thesis
    by (auto simp: expenses_step amount_invariant_excel)
next
  case (Image_confirm c t)
  with assms show ?thesis
    by (auto simp: expenses_step amount_invariant_def js_or_not_NaN split: option.splits)
qed (use assms in \<open>simp_all add: expenses_step\<close>)

text \<open>
  C10, as the handlers have it. In every reachable state each record of the ledger keeps
  the amount its handler gives it: a manual record's amount is greater than 0 when it is
  a number; a spreadsheet or image record's amount is a number, which may be 0 or
  negative.
\<close>

theorem reachable_amounts: "\<forall>e\<in>set (expenses (run b evs)). amount_invariant e"
  unfolding run_def
proof (induction evs rule: rev_induct)
  case Nil
  show ?case by (simp add: run_from_Nil initial_state_def)
next
  case (snoc ev evs)
  then show ?case
    unfolding run_from_snoc by (rule amount_invariant_step)
qed

theorem reachable_amounts_witness:
  "hd (expenses (run exact_js later_clock_run)) \<in> set (expenses (run exact_js later_clock_run)) \<and>
   amount_invariant (hd (expenses (run exact_js later_clock_run)))"
proof -
  have "expenses (run exact_js later_clock_run) \<noteq> []"
    using later_clock_ids by auto
  then have h: "hd (expenses (run exact_js later_clock_run)) \<in> set (expenses (run exact_js later_clock_run))"
    by (rule hd_in_set)
  from reachable_amounts [of exact_js later_clock_run] h show ?thesis
    by blast
qed

text \<open>
  A receipt reply without an amount gives the candidate the amount \<open>0.00\<close>; confirming
  it puts a record of amount 0 into the ledger.
\<close>

theorem reachable_amounts_counterexample:
  "map amount (expenses (run exact_js zero_amount_run)) = [Fin 0] \<and> \<not> js_less 0 (Fin 0)"
  by (simp add: zero_amount zero_jsnum_def)


text \<open>
  C9 on the code. Every append is to keep the ids unique, and the ids are clock reads: a
  manual submission that completes and an image confirmation that is clicked at the same
  clock read, 1767225660000, leave two records with the id \<open>1767225660000\<close> in the
  ledger.
\<close>

theorem same_clock_ids_collide:
  "map expense_id (expenses (run exact_js same_clock_run)) = [''1767225660000'', ''1767225660000''] \<and>
   \<not> distinct (map expense_id (expenses (run exact_js same_clock_run)))"
  by (simp add: same_clock_ids)



section \<open>The derived views on the example runs\<close>







lemma tie_top:
  "topCategory exact_js (run exact_js tie_run) = Some (''Travel'', Number (Fin 30))"
  by (simp add: tie_filtered view_eval)

theorem top_category_is_first_maximal_witness:
  "minus_orders exact_js \<and>
   filteredExpenses exact_js (run exact_js tie_run) \<noteq> [] \<and>
   no_NaN_sum exact_js (filteredExpenses exact_js (run exact_js tie_run)) \<and>
   list_all (\<lambda>e. category e \<notin> set object_prototype_names)
     (filteredExpenses exact_js (run exact_js tie_run)) \<and>
   list_all (\<lambda>e. array_index (category e) = None)
     (filteredExpenses exact_js (run exact_js tie_run)) \<and>
   topCategory exact_js (run exact_js tie_run) = Some (''Travel'', Number (Fin 30)) \<and>
   (\<exists>c. topCategory exact_js (run exact_js tie_run) =
           Some (c, Number (category_sum exact_js (run exact_js tie_run) c)) \<and>
        c \<in> category ` set (filteredExpenses exact_js (run exact_js tie_run)))"
proof -
  have own: "\<forall>e\<in>set (filteredExpenses exact_js (run exact_js tie_run)).
      category e \<notin> set object_prototype_names"
    using tie_hyps(3) by (simp add: list_all_iff)
  from top_category_is_first_maximal [OF minus_orders_exact tie_hyps(1) tie_hyps(2) own]
  have "\<exists>c. topCategory exact_js (run exact_js tie_run) =
           Some (c, Number (category_sum exact_js (run exact_js tie_run) c)) \<and>
        c \<in> category ` set (filteredExpenses exact_js (run exact_js tie_run))"
    by blast
  with minus_orders_exact tie_hyps tie_top show ?thesis
    by blast
qed

theorem top_category_counterexample:
  "map category (filteredExpenses exact_js (run exact_js index_tie_run)) = [''2'', ''1''] \<and>
   category_sum exact_js (run exact_js index_tie_run) ''2'' = Fin 10 \<and>
   category_sum exact_js (run exact_js index_tie_run) ''1'' = Fin 10 \<and>
   topCategory exact_js (run exact_js index_tie_run) = Some (''1'', Number (Fin 10)) \<and>
   map category (filteredExpenses exact_js (run exact_js inherited_name_run)) =
     [''Travel'', ''constructor''] \<and>
   category_sum exact_js (run exact_js inherited_name_run) ''constructor'' = Fin 50 \<and>
   topCategory exact_js (run exact_js inherited_name_run) = Some (''Travel'', Number (Fin 10)) \<and>
   map category (filteredExpenses exact_js (run exact_js infinity_run)) =
     [''Travel'', ''Travel'', ''Travel'', ''Shopping''] \<and>
   category_sum exact_js (run exact_js infinity_run) ''Travel'' = NaN \<and>
   category_sum exact_js (run exact_js infinity_run) ''Shopping'' = Fin 30 \<and>
   topCategory exact_js (run exact_js infinity_run) = Some (''Travel'', Number (Fin 50))"
  by (simp add: index_tie_filtered index_tie_top inherited_name_filtered inherited_name_top
      infinity_filtered infinity_top imported_row_def)

end
